theory Spec2Isabelle
  imports Complex_Main "HOL-Library.Sublist"
begin

section \<open>Strings and Numbers of the host language\<close>

text \<open>
  String values are \<^typ>\<open>string\<close>, with one \<^typ>\<open>char\<close> per code unit in the 8-bit
  range. The white space removed by \<open>String.prototype.trim\<close> and skipped by \<open>parseFloat\<close>
  is, in that range, TAB, LF, VT, FF, CR, SPACE and NBSP.
\<close>

definition isWhiteSpace :: "char \<Rightarrow> bool" where
  "isWhiteSpace c = (c \<in> set [CHR 0x09, CHR 0x0A, CHR 0x0B, CHR 0x0C, CHR 0x0D, CHR 0x20, CHR 0xA0])"

definition trimStart :: "string \<Rightarrow> string" where
  "trimStart s = dropWhile isWhiteSpace s"

definition trimEnd :: "string \<Rightarrow> string" where
  "trimEnd s = rev (dropWhile isWhiteSpace (rev s))"

definition trim :: "string \<Rightarrow> string" where
  "trim s = trimEnd (trimStart s)"

text \<open>
  A Number is NaN, one of the two infinities, or finite. A finite Number is given by its
  value as a rational; every double is one. Negative zero is not told apart from zero:
  the program only compares with \<open>> 0\<close> and tests \<open>isNaN\<close>.
\<close>

datatype jsnum = NaN | Infinity | NegInfinity | Finite rat

fun isNaN :: "jsnum \<Rightarrow> bool" where
  "isNaN NaN = True"
| "isNaN _ = False"

text \<open>The comparison \<open>x > 0\<close>: false for NaN.\<close>

fun gtZero :: "jsnum \<Rightarrow> bool" where
  "gtZero NaN = False"
| "gtZero Infinity = True"
| "gtZero NegInfinity = False"
| "gtZero (Finite q) = (0 < q)"

fun negate :: "jsnum \<Rightarrow> jsnum" where
  "negate NaN = NaN"
| "negate Infinity = NegInfinity"
| "negate NegInfinity = Infinity"
| "negate (Finite q) = Finite (- q)"

text \<open>Truthiness of an optional string: \<open>undefined\<close> and the empty string are falsy.\<close>

fun truthy :: "string option \<Rightarrow> bool" where
  "truthy None = False"
| "truthy (Some s) = (s \<noteq> [])"

text \<open>Decimal rendering of a non-negative integer, as a template literal prints an index.\<close>

fun showNat :: "nat \<Rightarrow> string" where
  "showNat n = (if n < 10 then [''0123456789'' ! n]
                else showNat (n div 10) @ [''0123456789'' ! (n mod 10)])"

declare showNat.simps [simp del]

subsection \<open>parseFloat\<close>

text \<open>
  \<open>parseFloat\<close> skips leading white space, takes the longest prefix of the rest that is a
  \<open>StrDecimalLiteral\<close> (an optional sign, then \<open>Infinity\<close>, or digits with an optional
  fraction and an optional complete exponent), and returns NaN when there is none.
  The functions below return the value of that prefix together with the unread rest.
\<close>

definition isDigit :: "char \<Rightarrow> bool" where
  "isDigit c = (c \<in> set ''0123456789'')"

definition digitValue :: "char \<Rightarrow> nat" where
  "digitValue c = of_char c - 48"

definition decimalValue :: "string \<Rightarrow> nat" where
  "decimalValue ds = foldl (\<lambda>a c. 10 * a + digitValue c) 0 ds"

text \<open>
  \<open>ExponentPart\<close>: \<open>e\<close> or \<open>E\<close>, an optional sign, at least one digit. An exponent
  that is absent or incomplete contributes 0 and reads nothing.
\<close>

definition signedInteger :: "string \<Rightarrow> (int \<times> string) option" where
  "signedInteger s =
     (let (sgn, r) = (case s of
                        [] \<Rightarrow> (1, s)
                      | c # r \<Rightarrow> if c = CHR ''+'' then (1, r)
                                 else if c = CHR ''-'' then (- 1, r) else (1, s))
      in if takeWhile isDigit r = [] then None
         else Some (sgn * int (decimalValue (takeWhile isDigit r)), dropWhile isDigit r))"

definition exponentPart :: "string \<Rightarrow> int \<times> string" where
  "exponentPart s =
     (case s of
        [] \<Rightarrow> (0, s)
      | c # r \<Rightarrow>
          if c = CHR ''e'' \<or> c = CHR ''E''
          then (case signedInteger r of None \<Rightarrow> (0, s) | Some (e, r') \<Rightarrow> (e, r'))
          else (0, s))"

text \<open>The mathematical value of integer digits, fraction digits and exponent.\<close>

definition mathValue :: "string \<Rightarrow> string \<Rightarrow> int \<Rightarrow> rat" where
  "mathValue ip fp e =
     (let m = of_nat (decimalValue (ip @ fp)) / 10 ^ length fp
      in if 0 \<le> e then m * 10 ^ nat e else m / 10 ^ nat (- e))"

text \<open>
  The value is rounded to a double. The rounding of the mantissa is not modelled (the
  exact value stands for the double nearest to it); the two ends of the range are: a
  magnitude of at most \<open>2 ^ -1075\<close> becomes zero, one of at least \<open>2 ^ 1024 - 2 ^ 970\<close>
  becomes infinite.
\<close>

definition roundMV :: "rat \<Rightarrow> jsnum" where
  "roundMV q =
     (if \<bar>q\<bar> \<le> 1 / 2 ^ 1075 then Finite 0
      else if 2 ^ 1024 - 2 ^ 970 \<le> \<bar>q\<bar> then (if 0 < q then Infinity else NegInfinity)
      else Finite q)"

definition strUnsignedDecimalLiteral :: "string \<Rightarrow> (jsnum \<times> string) option" where
  "strUnsignedDecimalLiteral s =
     (if prefix ''Infinity'' s then Some (Infinity, drop 8 s)
      else
        let ip = takeWhile isDigit s; r1 = dropWhile isDigit s in
        (case r1 of
           [] \<Rightarrow> if ip = [] then None else Some (roundMV (mathValue ip [] 0), [])
         | c # r2 \<Rightarrow>
             if c = CHR ''.'' then
               (let fp = takeWhile isDigit r2; r3 = dropWhile isDigit r2 in
                if ip = [] \<and> fp = [] then None
                else (case exponentPart r3 of
                        (e, r4) \<Rightarrow> Some (roundMV (mathValue ip fp e), r4)))
             else if ip = [] then None
             else (case exponentPart r1 of
                     (e, r4) \<Rightarrow> Some (roundMV (mathValue ip [] e), r4))))"

definition strDecimalLiteral :: "string \<Rightarrow> (jsnum \<times> string) option" where
  "strDecimalLiteral s =
     (case s of
        [] \<Rightarrow> None
      | c # r \<Rightarrow>
          if c = CHR ''+'' then strUnsignedDecimalLiteral r
          else if c = CHR ''-''
          then map_option (\<lambda>(v, r'). (negate v, r')) (strUnsignedDecimalLiteral r)
          else strUnsignedDecimalLiteral s)"

definition parseFloat :: "string \<Rightarrow> jsnum" where
  "parseFloat s =
     (case strDecimalLiteral (trimStart s) of None \<Rightarrow> NaN | Some (v, _) \<Rightarrow> v)"

section \<open>Data Model\<close>

type_synonym path = string

text \<open>A thrown \<open>Error\<close> with its message.\<close>

datatype error = Error string

text \<open>
  \<open>AudioSequenceStep\<close>: both optional fields may be \<open>undefined\<close>. The field \<open>id\<close> is
  named \<open>step_id\<close> here.
\<close>

record AudioSequenceStep =
  step_id :: string
  audio_file_name_and_path :: "string option"
  pause_duration :: "jsnum option"

record ProcessingResult =
  outputPath :: path
  audioLengthSeconds :: jsnum

section \<open>The CSV Parser\<close>

text \<open>
  A row as the CSV reader hands it to the \<open>data\<close> callback: one string per column, where
  the cells of the two optional columns may be missing and the \<open>id\<close> column is taken to
  be there (the step's \<open>id\<close> is declared a string). The reader itself is a library
  and is represented by what it delivers: the rows in file order, then either \<open>end\<close> or
  an \<open>error\<close> carrying a message.
\<close>

record csvRow =
  row_id :: string
  row_audio_file_name_and_path :: "string option"
  row_pause_duration :: "string option"

record csvFile =
  rows :: "csvRow list"
  readError :: "string option"

datatype logLevel = LogInfo | LogWarn | LogError

type_synonym logEntry = "logLevel \<times> string"

text \<open>The body of the \<open>data\<close> callback: the step built from one row, and what it logs.\<close>

definition parseRow :: "csvRow \<Rightarrow> AudioSequenceStep \<times> logEntry list" where
  "parseRow row =
     (let step0 = \<lparr>step_id = row_id row, audio_file_name_and_path = None,
                    pause_duration = None\<rparr>;
          step1 = (case row_audio_file_name_and_path row of
                     None \<Rightarrow> step0
                   | Some a \<Rightarrow>
                       if a \<noteq> [] \<and> trim a \<noteq> []
                       then step0\<lparr>audio_file_name_and_path := Some (trim a)\<rparr>
                       else step0)
      in case row_pause_duration row of
           None \<Rightarrow> (step1, [])
         | Some p \<Rightarrow>
             if p \<noteq> [] \<and> trim p \<noteq> [] then
               (let step2 = step1\<lparr>pause_duration := Some (parseFloat p)\<rparr> in
                if isNaN (parseFloat p)
                then (step2\<lparr>pause_duration := None\<rparr>,
                      [(LogWarn, ''Invalid pause_duration for step '' @ row_id row @ '': '' @ p)])
                else (step2, []))
             else (step1, []))"

text \<open>All \<open>data\<close> events in order: the results pushed and the lines logged.\<close>

fun parseRows :: "csvRow list \<Rightarrow> AudioSequenceStep list \<times> logEntry list" where
  "parseRows [] = ([], [])"
| "parseRows (row # rest) =
     (case parseRow row of
        (step, l) \<Rightarrow> (case parseRows rest of (steps, ls) \<Rightarrow> (step # steps, l @ ls)))"

definition parseAudioSequenceCSV ::
  "(path \<Rightarrow> csvFile option) \<Rightarrow> path \<Rightarrow> (error + AudioSequenceStep list) \<times> logEntry list" where
  "parseAudioSequenceCSV disk csvPath =
     (let l0 = [(LogInfo, ''Parsing CSV file: '' @ csvPath)] in
      case disk csvPath of
        None \<Rightarrow>
          (Inl (Error (''CSV file not found: '' @ csvPath)),
           l0 @ [(LogError, ''CSV file not found: '' @ csvPath)])
      | Some f \<Rightarrow>
          (case parseRows (rows f) of
             (results, ls) \<Rightarrow>
               (case readError f of
                  Some msg \<Rightarrow>
                    (Inl (Error msg), l0 @ ls @ [(LogError, ''Error parsing CSV file: '' @ msg)])
                | None \<Rightarrow>
                    (Inr results,
                     l0 @ ls @ [(LogInfo, ''Successfully parsed '' @ showNat (length results)
                                          @ '' steps from CSV'')]))))"

section \<open>The Audio Processor\<close>

subsection \<open>Disk, external tool and trace\<close>

text \<open>
  The disk is the list of the paths that exist on it. A path exists when it is listed or
  something beneath it is listed, so a directory cannot be absent while it has contents.
\<close>

definition inTree :: "path \<Rightarrow> path \<Rightarrow> bool" where
  "inTree dir p = (p = dir \<or> prefix (dir @ ''/'') p)"

text \<open>
  The command line that \<open>generateSilence\<close> runs, by the values of its options:
  \<open>-f lavfi -i anullsrc=r=44100:cl=stereo -t <duration> -c:a libmp3lame -b:a 128k -y <output>\<close>.
  The location of the binary and the shell quoting of the output path are left out.
\<close>

record silenceCommand =
  inputFormat :: string
  sourceFilter :: string
  sourceRate :: nat
  sourceChannelLayout :: string
  duration :: jsnum
  silenceCodec :: string
  silenceBitrate :: string
  overwrite :: bool
  silenceOutput :: path

text \<open>The concatenation job as the builder calls configure it.\<close>

record concatJob =
  concatInput :: path
  inputOptions :: "string list"
  audioCodec :: string
  audioBitrate :: string
  audioFrequency :: nat
  audioChannels :: nat
  concatOutput :: path

text \<open>
  The effects a call performs on the disk and through the external tool, in the order it
  performs them. Lines written to the log by the processor are not among them, and the
  search for the tool's binary when the module is loaded is not part of a call.
\<close>

datatype event =
    Mkdir path
  | RunSilence silenceCommand
  | WriteFile path string
  | RunConcat concatJob
  | Probe path
  | RmTree path

record world =
  files :: "path list"
  trace :: "event list"

text \<open>
  What the program does not decide: how \<open>path.join\<close> joins, what a run of the external
  tool does to the disk and whether it fails (\<open>Some\<close> message), whether writing a file
  fails, and what the probe reports (\<open>metadata.format.duration\<close>, possibly \<open>undefined\<close>).
  \<open>fs.mkdirSync\<close> with \<open>recursive\<close> and \<open>fs.rmSync\<close> with \<open>recursive\<close> and \<open>force\<close> are
  taken to succeed; of the directories \<open>mkdirSync\<close> creates only the requested one is
  recorded.
\<close>

record host =
  pathJoin :: "path \<Rightarrow> path \<Rightarrow> path"
  execSilence :: "silenceCommand \<Rightarrow> path list \<Rightarrow> string option \<times> path list"
  writeFile :: "path \<Rightarrow> path list \<Rightarrow> string option"
  execConcat :: "concatJob \<Rightarrow> path list \<Rightarrow> string option \<times> path list"
  ffprobe :: "path \<Rightarrow> path list \<Rightarrow> string + jsnum option"

definition emit :: "event \<Rightarrow> world \<Rightarrow> world" where
  "emit e w = w\<lparr>trace := trace w @ [e]\<rparr>"

definition existsSync :: "path \<Rightarrow> world \<Rightarrow> bool" where
  "existsSync p w = (\<exists>q \<in> set (files w). inTree p q)"

definition mkdirSync :: "path \<Rightarrow> world \<Rightarrow> world" where
  "mkdirSync p w = emit (Mkdir p) (w\<lparr>files := p # files w\<rparr>)"

definition rmSync :: "path \<Rightarrow> world \<Rightarrow> world" where
  "rmSync p w = emit (RmTree p) (w\<lparr>files := filter (\<lambda>q. \<not> inTree p q) (files w)\<rparr>)"

definition writeFileSync :: "host \<Rightarrow> path \<Rightarrow> string \<Rightarrow> world \<Rightarrow> (error + unit) \<times> world" where
  "writeFileSync h p content w =
     (let w1 = emit (WriteFile p content) w in
      case writeFile h p (files w1) of
        Some msg \<Rightarrow> (Inl (Error msg), w1)
      | None \<Rightarrow> (Inr (), w1\<lparr>files := p # files w1\<rparr>))"

subsection \<open>generateSilence and getAudioDuration\<close>

definition generateSilence :: "host \<Rightarrow> jsnum \<Rightarrow> path \<Rightarrow> world \<Rightarrow> (error + unit) \<times> world" where
  "generateSilence h durationSeconds outPath w =
     (let cmd = \<lparr>inputFormat = ''lavfi'', sourceFilter = ''anullsrc'', sourceRate = 44100,
                 sourceChannelLayout = ''stereo'', duration = durationSeconds,
                 silenceCodec = ''libmp3lame'', silenceBitrate = ''128k'', overwrite = True,
                 silenceOutput = outPath\<rparr>;
          w1 = emit (RunSilence cmd) w
      in case execSilence h cmd (files w1) of
           (Some msg, disk) \<Rightarrow> (Inl (Error msg), w1\<lparr>files := disk\<rparr>)
         | (None, disk) \<Rightarrow>
             (let w2 = w1\<lparr>files := disk\<rparr> in
              if existsSync outPath w2 then (Inr (), w2)
              else (Inl (Error ''Output file was not created''), w2)))"

text \<open>\<open>metadata.format.duration || 0\<close>: \<open>undefined\<close>, NaN and zero all give 0.\<close>

fun orZero :: "jsnum option \<Rightarrow> jsnum" where
  "orZero None = Finite 0"
| "orZero (Some NaN) = Finite 0"
| "orZero (Some (Finite q)) = Finite q"
| "orZero (Some v) = v"

definition getAudioDuration :: "host \<Rightarrow> path \<Rightarrow> world \<Rightarrow> (error + jsnum) \<times> world" where
  "getAudioDuration h filePath w =
     (let w1 = emit (Probe filePath) w in
      case ffprobe h filePath (files w1) of
        Inl msg \<Rightarrow> (Inl (Error msg), w1)
      | Inr d \<Rightarrow> (Inr (orZero d), w1))"

subsection \<open>combineAudioFiles\<close>

text \<open>One round of the loop over the steps: step \<open>i\<close> and the list built so far.\<close>

definition loopBody ::
  "host \<Rightarrow> path \<Rightarrow> nat \<Rightarrow> AudioSequenceStep \<Rightarrow> path list \<Rightarrow> world \<Rightarrow> (error + path list) \<times> world" where
  "loopBody h tempDir i step filesToConcat w =
     (if truthy (audio_file_name_and_path step)
      then (Inr (filesToConcat @ [the (audio_file_name_and_path step)]), w)
      else if pause_duration step \<noteq> None \<and> gtZero (the (pause_duration step))
      then (let silenceFile = pathJoin h tempDir (''silence-'' @ showNat i @ ''.mp3'') in
            case generateSilence h (the (pause_duration step)) silenceFile w of
              (Inl e, w') \<Rightarrow> (Inl e, w')
            | (Inr u, w') \<Rightarrow> (Inr (filesToConcat @ [silenceFile]), w'))
      else (Inr filesToConcat, w))"

text \<open>The loop from index \<open>i\<close> on; a failed silence synthesis leaves it at once.\<close>

fun prepareFiles ::
  "host \<Rightarrow> path \<Rightarrow> nat \<Rightarrow> AudioSequenceStep list \<Rightarrow> path list \<Rightarrow> world \<Rightarrow> (error + path list) \<times> world" where
  "prepareFiles h tempDir i [] filesToConcat w = (Inr filesToConcat, w)"
| "prepareFiles h tempDir i (step # steps) filesToConcat w =
     (case loopBody h tempDir i step filesToConcat w of
        (Inl e, w') \<Rightarrow> (Inl e, w')
      | (Inr filesToConcat', w') \<Rightarrow> prepareFiles h tempDir (Suc i) steps filesToConcat' w')"

text \<open>
  The concat list: \<open>file '<path>'\<close> per entry, each single quote of the path replaced by
  the four characters \<open>'\''\<close>, the entries joined by line feeds.
\<close>

definition quoteChar :: char where
  "quoteChar = CHR 0x27"

definition backslashChar :: char where
  "backslashChar = CHR 0x5C"

definition lineFeed :: char where
  "lineFeed = CHR 0x0A"

definition escapeQuotes :: "string \<Rightarrow> string" where
  "escapeQuotes file =
     concat (map (\<lambda>c. if c = quoteChar then [quoteChar, backslashChar, quoteChar, quoteChar]
                        else [c]) file)"

definition concatListLine :: "path \<Rightarrow> string" where
  "concatListLine file = ''file '' @ [quoteChar] @ escapeQuotes file @ [quoteChar]"

fun joinLines :: "string list \<Rightarrow> string" where
  "joinLines [] = []"
| "joinLines [l] = l"
| "joinLines (l # ls) = l @ [lineFeed] @ joinLines ls"

definition concatListContent :: "path list \<Rightarrow> string" where
  "concatListContent filesToConcat = joinLines (map concatListLine filesToConcat)"

definition concatenate :: "host \<Rightarrow> path \<Rightarrow> path \<Rightarrow> world \<Rightarrow> (error + unit) \<times> world" where
  "concatenate h concatListPath outPath w =
     (let job = \<lparr>concatInput = concatListPath, inputOptions = [''-f'', ''concat'', ''-safe'', ''0''],
                 audioCodec = ''libmp3lame'', audioBitrate = ''128k'', audioFrequency = 44100,
                 audioChannels = 2, concatOutput = outPath\<rparr>;
          w1 = emit (RunConcat job) w
      in case execConcat h job (files w1) of
           (Some msg, disk) \<Rightarrow> (Inl (Error msg), w1\<lparr>files := disk\<rparr>)
         | (None, disk) \<Rightarrow> (Inr (), w1\<lparr>files := disk\<rparr>))"

text \<open>The \<open>try\<close> block.\<close>

definition tryBlock ::
  "host \<Rightarrow> AudioSequenceStep list \<Rightarrow> path \<Rightarrow> path \<Rightarrow> path \<Rightarrow> world \<Rightarrow> (error + ProcessingResult) \<times> world" where
  "tryBlock h steps outPath tempDir concatListPath w =
     (case prepareFiles h tempDir 0 steps [] w of
        (Inl e, w1) \<Rightarrow> (Inl e, w1)
      | (Inr filesToConcat, w1) \<Rightarrow>
          if filesToConcat = [] then (Inl (Error ''No audio files or pauses to process''), w1)
          else
            (case writeFileSync h concatListPath (concatListContent filesToConcat) w1 of
               (Inl e, w2) \<Rightarrow> (Inl e, w2)
             | (Inr u, w2) \<Rightarrow>
                 (case concatenate h concatListPath outPath w2 of
                    (Inl e, w3) \<Rightarrow> (Inl e, w3)
                  | (Inr u', w3) \<Rightarrow>
                      (case getAudioDuration h outPath w3 of
                         (Inl e, w4) \<Rightarrow> (Inl e, w4)
                       | (Inr audioLength, w4) \<Rightarrow>
                           (Inr \<lparr>outputPath = outPath, audioLengthSeconds = audioLength\<rparr>, w4)))))"

text \<open>The directory creation before the \<open>try\<close>, and the \<open>finally\<close> block.\<close>

definition createTempDir :: "path \<Rightarrow> world \<Rightarrow> world" where
  "createTempDir tempDir w = (if \<not> existsSync tempDir w then mkdirSync tempDir w else w)"

definition finallyBlock :: "path \<Rightarrow> world \<Rightarrow> world" where
  "finallyBlock tempDir w = (if existsSync tempDir w then rmSync tempDir w else w)"

definition scratchDir :: "host \<Rightarrow> path \<Rightarrow> path" where
  "scratchDir h projectResourcesPath = pathJoin h projectResourcesPath ''temporary_deletable''"

text \<open>
  The whole call, started on a disk with an empty trace: the value returned or the error
  thrown, with the disk and the trace it leaves.
\<close>

definition combineAudioFiles ::
  "host \<Rightarrow> AudioSequenceStep list \<Rightarrow> path \<Rightarrow> path \<Rightarrow> path list \<Rightarrow> (error + ProcessingResult) \<times> world" where
  "combineAudioFiles h steps outPath projectResourcesPath disk =
     (let tempDir = scratchDir h projectResourcesPath;
          w0 = createTempDir tempDir \<lparr>files = disk, trace = []\<rparr>;
          concatListPath = pathJoin h tempDir ''concat-list.txt''
      in case tryBlock h steps outPath tempDir concatListPath w0 of
           (r, w1) \<Rightarrow> (r, finallyBlock tempDir w1))"

section \<open>Vocabulary of the Properties\<close>

text \<open>
  A step has a clip reference when the loop's first test succeeds, and a positive pause
  when the second one would.
\<close>

definition hasClip :: "AudioSequenceStep \<Rightarrow> bool" where
  "hasClip step = truthy (audio_file_name_and_path step)"

definition hasPositivePause :: "AudioSequenceStep \<Rightarrow> bool" where
  "hasPositivePause step = (case pause_duration step of None \<Rightarrow> False | Some d \<Rightarrow> gtZero d)"





text \<open>The output profile and the silence source, as the two commands fix them.\<close>

fun fixedProfile :: "event \<Rightarrow> bool" where
  "fixedProfile (RunSilence c) =
     (sourceFilter c = ''anullsrc'' \<and> sourceRate c = 44100 \<and> sourceChannelLayout c = ''stereo''
      \<and> silenceCodec c = ''libmp3lame'' \<and> silenceBitrate c = ''128k'')"
| "fixedProfile (RunConcat j) =
     (audioCodec j = ''libmp3lame'' \<and> audioBitrate j = ''128k'' \<and> audioFrequency j = 44100
      \<and> audioChannels j = 2)"
| "fixedProfile e = True"

text \<open>
  A host on which everything works: paths are joined with a slash, the tool creates the
  file it is asked for, and the probe reports ten seconds. And one on which the
  concatenation fails after the tool has written part of its output.
\<close>

definition simpleHost :: host where
  "simpleHost =
     \<lparr>pathJoin = (\<lambda>a b. a @ ''/'' @ b),
      execSilence = (\<lambda>c disk. (None, silenceOutput c # disk)),
      writeFile = (\<lambda>p disk. None),
      execConcat = (\<lambda>j disk. (None, concatOutput j # disk)),
      ffprobe = (\<lambda>p disk. Inr (Some (Finite 10)))\<rparr>"

definition failingHost :: host where
  "failingHost = simpleHost\<lparr>execConcat := (\<lambda>j disk. (Some ''ffmpeg exited with code 1'', concatOutput j # disk))\<rparr>"

text \<open>An empty disk with nothing done yet.\<close>

definition emptyWorld :: world where
  "emptyWorld = \<lparr>files = [], trace = []\<rparr>"

text \<open>Steps of the three kinds, for the examples.\<close>

definition clipStep :: "string \<Rightarrow> path \<Rightarrow> AudioSequenceStep" where
  "clipStep i p = \<lparr>step_id = i, audio_file_name_and_path = Some p, pause_duration = None\<rparr>"

definition pauseStep :: "string \<Rightarrow> jsnum \<Rightarrow> AudioSequenceStep" where
  "pauseStep i d = \<lparr>step_id = i, audio_file_name_and_path = None, pause_duration = Some d\<rparr>"

definition emptyStep :: "string \<Rightarrow> AudioSequenceStep" where
  "emptyStep i = \<lparr>step_id = i, audio_file_name_and_path = None, pause_duration = None\<rparr>"

text \<open>The second world continues the trace of the first, by events of the fixed profile.\<close>

definition extends :: "world \<Rightarrow> world \<Rightarrow> bool" where
  "extends w w' = (\<exists>ev. trace w' = trace w @ ev \<and> list_all fixedProfile ev)"

section \<open>Cleanup of the Scratch Directory\<close>

lemma inTree_trans: "inTree d p \<Longrightarrow> inTree p q \<Longrightarrow> inTree d q"
  unfolding inTree_def by (auto simp: prefix_def)

lemma finallyBlock_removes: "inTree d p \<Longrightarrow> \<not> existsSync p (finallyBlock d w)"
  by (auto simp: finallyBlock_def existsSync_def rmSync_def emit_def dest: inTree_trans)

text \<open>
  Claim C1. After every call to \<open>combineAudioFiles\<close>, whether it returns a result or
  throws (empty plan, silence synthesis, manifest write, concatenation, duration probe),
  neither the scratch directory \<open><projectResourcesPath>/temporary_deletable\<close> nor
  anything inside it exists on disk. This holds for every host, that is, whatever the
  external tool and the file write do and wherever they fail.
\<close>

theorem scratchDir_gone_after_call:
  "inTree (scratchDir h projectResourcesPath) p \<Longrightarrow>
   \<not> existsSync p (snd (combineAudioFiles h steps outPath projectResourcesPath disk))"
  by (simp add: combineAudioFiles_def Let_def finallyBlock_removes split: prod.splits)

text \<open>A run that succeeds and a run whose concatenation fails, each with a silence file.\<close>

theorem scratchDir_gone_after_call_witness:
  "\<not> existsSync ''/res/temporary_deletable''
       (snd (combineAudioFiles simpleHost [clipStep ''1'' ''/a.mp3'', pauseStep ''2'' (Finite 2)]
               ''/out/o.mp3'' ''/res'' [''/a.mp3'']))
   \<and> \<not> existsSync ''/res/temporary_deletable/silence-1.mp3''
       (snd (combineAudioFiles failingHost [clipStep ''1'' ''/a.mp3'', pauseStep ''2'' (Finite 2)]
               ''/out/o.mp3'' ''/res'' [''/a.mp3'']))"
proof -
  have a: "inTree (scratchDir simpleHost ''/res'') ''/res/temporary_deletable''"
    by (simp add: inTree_def scratchDir_def simpleHost_def)
  have b: "inTree (scratchDir failingHost ''/res'') ''/res/temporary_deletable/silence-1.mp3''"
    by (simp add: inTree_def scratchDir_def simpleHost_def failingHost_def)
  show ?thesis
    using scratchDir_gone_after_call[OF a] scratchDir_gone_after_call[OF b] by blast
qed

section \<open>The Loop over the Steps\<close>

lemma loopBody_skip:
  "\<not> hasClip s \<Longrightarrow> \<not> hasPositivePause s \<Longrightarrow> loopBody h d i s acc w = (Inr acc, w)"
  by (cases "pause_duration s") (simp_all add: loopBody_def hasClip_def hasPositivePause_def)

lemma loopBody_clip:
  "audio_file_name_and_path s = Some a \<Longrightarrow> a \<noteq> [] \<Longrightarrow>
   loopBody h d i s acc w = (Inr (acc @ [a]), w)"
  by (simp add: loopBody_def)

lemma prepareFiles_append:
  "prepareFiles h d i (pre @ post) acc w =
     (case prepareFiles h d i pre acc w of
        (Inl e, w') \<Rightarrow> (Inl e, w')
      | (Inr acc', w') \<Rightarrow> prepareFiles h d (i + length pre) post acc' w')"
  by (induction pre arbitrary: i acc w) (auto split: prod.splits sum.splits)




lemma trace_createTempDir:
  "trace (createTempDir d w) = trace w @ (if existsSync d w then [] else [Mkdir d])"
  by (simp add: createTempDir_def mkdirSync_def emit_def)

lemma trace_finallyBlock:
  "trace (finallyBlock d w) = trace w @ (if existsSync d w then [RmTree d] else [])"
  by (simp add: finallyBlock_def rmSync_def emit_def)




text \<open>
  Claim C3. When every step has a clip reference (a non-empty
  \<open>audio_file_name_and_path\<close>, which is what the loop tests), the list the loop builds is
  the list of these paths, unchanged and in step order, appended to what it started
  from (the empty list in \<open>combineAudioFiles\<close>); the loop touches nothing on the way.
  A pause that such a step might carry as well plays no part.
\<close>

theorem clip_only_plan:
  assumes "map audio_file_name_and_path steps = map Some clips"
    and "\<forall>p\<in>set clips. p \<noteq> []"
  shows "prepareFiles h tempDir i steps filesToConcat w = (Inr (filesToConcat @ clips), w)"
  using assms
proof (induction steps arbitrary: i filesToConcat clips)
  case Nil
  then show ?case by simp
next
  case (Cons s steps)
  then obtain a clips' where ps: "clips = a # clips'" by (cases clips) auto
  with Cons.prems have a: "audio_file_name_and_path s = Some a" "a \<noteq> []"
    and rest: "map audio_file_name_and_path steps = map Some clips'" "\<forall>p\<in>set clips'. p \<noteq> []"
    by auto
  show ?case
    using Cons.IH[OF rest] by (simp add: loopBody_clip[OF a] ps)
qed

theorem clip_only_plan_witness:
  "prepareFiles simpleHost ''/res/temporary_deletable'' 0
     [clipStep ''1'' ''/a.mp3'', clipStep ''2'' ''/b.mp3'', clipStep ''3'' ''/a.mp3''] [] emptyWorld
   = (Inr ([] @ [''/a.mp3'', ''/b.mp3'', ''/a.mp3'']), emptyWorld)"
  by (rule clip_only_plan) (simp_all add: clipStep_def)

text \<open>The loop tests truthiness, so an empty string counts as no clip reference.\<close>

lemma empty_string_is_no_clip:
  "loopBody h tempDir i (clipStep n []) filesToConcat w = (Inr filesToConcat, w)"
  by (simp add: loopBody_def clipStep_def)

text \<open>
  Claim C4. A step without a clip reference whose pause duration is zero, negative or
  unset is passed over: its round of the loop returns the list as it was and the world as
  it was (no silence file is synthesized, no error is raised), and a sequence containing
  it is processed as the steps before it followed by the steps after it, each of these
  under its own index.
\<close>

theorem skipped_step:
  assumes "\<not> hasClip s" and "\<not> hasPositivePause s"
  shows "loopBody h tempDir j s filesToConcat0 w0 = (Inr filesToConcat0, w0)
       \<and> prepareFiles h tempDir i (pre @ s # post) filesToConcat w =
           (case prepareFiles h tempDir i pre filesToConcat w of
              (Inl e, w') \<Rightarrow> (Inl e, w')
            | (Inr filesToConcat', w') \<Rightarrow>
                prepareFiles h tempDir (Suc (i + length pre)) post filesToConcat' w')"
  by (simp add: prepareFiles_append loopBody_skip[OF assms] split: prod.splits sum.splits)

theorem skipped_step_witness:
  "loopBody simpleHost ''/res/temporary_deletable'' 1 (pauseStep ''2'' (Finite 0)) [''/a.mp3''] emptyWorld
     = (Inr [''/a.mp3''], emptyWorld)
   \<and> prepareFiles simpleHost ''/res/temporary_deletable'' 0
       ([clipStep ''1'' ''/a.mp3''] @ pauseStep ''2'' (Finite 0) # [clipStep ''3'' ''/b.mp3'']) [] emptyWorld =
         (case prepareFiles simpleHost ''/res/temporary_deletable'' 0 [clipStep ''1'' ''/a.mp3''] [] emptyWorld of
            (Inl e, w') \<Rightarrow> (Inl e, w')
          | (Inr filesToConcat', w') \<Rightarrow>
              prepareFiles simpleHost ''/res/temporary_deletable'' (Suc (0 + length [clipStep ''1'' ''/a.mp3'']))
                [clipStep ''3'' ''/b.mp3''] filesToConcat' w')"
  by (rule skipped_step) (simp_all add: hasClip_def hasPositivePause_def pauseStep_def)

section \<open>The Trace of a Call\<close>

lemma extends_refl: "extends w w"
  by (simp add: extends_def)

lemma extends_trans: "extends w w' \<Longrightarrow> extends w' w'' \<Longrightarrow> extends w w''"
  by (auto simp: extends_def)

lemma extends_generateSilence: "extends w (snd (generateSilence h d out w))"
  by (simp add: extends_def generateSilence_def Let_def emit_def split: prod.splits option.splits)

lemma extends_loopBody: "extends w (snd (loopBody h t i s acc w))"
proof (cases "hasClip s \<or> \<not> hasPositivePause s")
  case True
  then show ?thesis
  proof
    assume "hasClip s"
    then show ?thesis by (simp add: loopBody_def hasClip_def extends_refl)
  next
    assume "\<not> hasPositivePause s"
    then show ?thesis
      by (cases "hasClip s")
         (simp add: loopBody_def hasClip_def extends_refl, simp add: loopBody_skip extends_refl)
  qed
next
  case False
  then obtain d where d: "pause_duration s = Some d" "gtZero d" "\<not> truthy (audio_file_name_and_path s)"
    by (cases "pause_duration s") (simp_all add: hasPositivePause_def hasClip_def)
  let ?g = "generateSilence h d (pathJoin h t (''silence-'' @ showNat i @ ''.mp3'')) w"
  have "extends w (snd ?g)" by (rule extends_generateSilence)
  moreover have "snd (loopBody h t i s acc w) = snd ?g"
    using d by (cases ?g) (simp add: loopBody_def Let_def split: sum.splits)
  ultimately show ?thesis by simp
qed

lemma extends_prepareFiles: "extends w (snd (prepareFiles h t i steps acc w))"
proof (induction steps arbitrary: i acc w)
  case Nil
  show ?case by (simp add: extends_refl)
next
  case (Cons s steps)
  show ?case
  proof (cases "loopBody h t i s acc w")
    case (Pair r w')
    then have e: "extends w w'" using extends_loopBody[of w h t i s acc] by simp
    show ?thesis
    proof (cases r)
      case (Inl err)
      with Pair e show ?thesis by simp
    next
      case (Inr acc')
      with Pair e Cons.IH[of w' "Suc i" acc'] show ?thesis
        by (simp add: extends_trans)
    qed
  qed
qed

lemma extends_writeFileSync: "extends w (snd (writeFileSync h p c w))"
  by (simp add: extends_def writeFileSync_def Let_def emit_def split: option.splits)

lemma extends_concatenate: "extends w (snd (concatenate h l out w))"
  by (simp add: extends_def concatenate_def Let_def emit_def split: prod.splits option.splits)

lemma extends_getAudioDuration: "extends w (snd (getAudioDuration h p w))"
  by (simp add: extends_def getAudioDuration_def Let_def emit_def split: sum.splits)

lemma extends_tryBlock: "extends w (snd (tryBlock h steps out t l w))"
proof -
  obtain r1 w1 where p: "prepareFiles h t 0 steps [] w = (r1, w1)" by (cases "prepareFiles h t 0 steps [] w")
  then have e1: "extends w w1" using extends_prepareFiles[of w h t 0 steps "[]"] by simp
  show ?thesis
  proof (cases r1)
    case (Inl e)
    with p e1 show ?thesis by (simp add: tryBlock_def)
  next
    case (Inr fs)
    obtain r2 w2 where q: "writeFileSync h l (concatListContent fs) w1 = (r2, w2)"
      by (cases "writeFileSync h l (concatListContent fs) w1")
    then have e2: "extends w w2"
      using extends_writeFileSync[of w1 h l "concatListContent fs"] e1 by (auto intro: extends_trans)
    obtain r3 w3 where c: "concatenate h l out w2 = (r3, w3)" by (cases "concatenate h l out w2")
    then have e3: "extends w w3"
      using extends_concatenate[of w2 h l out] e2 by (auto intro: extends_trans)
    obtain r4 w4 where g: "getAudioDuration h out w3 = (r4, w4)" by (cases "getAudioDuration h out w3")
    then have e4: "extends w w4"
      using extends_getAudioDuration[of w3 h out] e3 by (auto intro: extends_trans)
    from p Inr q c g e1 e2 e3 e4 show ?thesis
      by (simp add: tryBlock_def split: sum.splits)
  qed
qed

lemma extends_createTempDir: "extends w (createTempDir t w)"
  by (simp add: extends_def trace_createTempDir)

lemma extends_finallyBlock: "extends w (finallyBlock t w)"
  by (simp add: extends_def trace_finallyBlock)

lemma combineAudioFiles_fixed:
  "list_all fixedProfile (trace (snd (combineAudioFiles h steps out base disk)))"
proof -
  let ?t = "scratchDir h base"
  let ?w0 = "createTempDir ?t \<lparr>files = disk, trace = []\<rparr>"
  let ?w1 = "snd (tryBlock h steps out ?t (pathJoin h ?t ''concat-list.txt'') ?w0)"
  have "extends \<lparr>files = disk, trace = []\<rparr> (finallyBlock ?t ?w1)"
    by (blast intro: extends_trans extends_createTempDir extends_tryBlock extends_finallyBlock)
  then show ?thesis
    by (simp add: extends_def combineAudioFiles_def Let_def case_prod_beta)
qed

section \<open>Running the Call on a Given Host\<close>

text \<open>The definitions to unfold when a call is evaluated on given inputs.\<close>

lemmas run_defs = combineAudioFiles_def Let_def scratchDir_def simpleHost_def failingHost_def createTempDir_def
  existsSync_def inTree_def mkdirSync_def emit_def tryBlock_def loopBody_def clipStep_def pauseStep_def emptyStep_def
  generateSilence_def writeFileSync_def concatenate_def getAudioDuration_def finallyBlock_def rmSync_def
  showNat.simps

section \<open>The Concat List\<close>














section \<open>The Fixed Profile\<close>

text \<open>
  Claim C6. In every run, every concatenation the call starts re-encodes with codec
  \<open>libmp3lame\<close> (not \<open>copy\<close>) at bitrate \<open>128k\<close>, 44100 Hz and 2 channels, and every
  silence it synthesizes comes from the \<open>anullsrc\<close> source at 44100 Hz in the \<open>stereo\<close>
  (two-channel) layout, encoded with the same codec and bitrate: the silence segments
  have the sample rate and channel layout of the output.
\<close>

theorem fixed_output_profile:
  "(RunConcat j \<in> set (trace (snd (combineAudioFiles h steps outPath projectResourcesPath disk))) \<longrightarrow>
      audioCodec j = ''libmp3lame'' \<and> audioCodec j \<noteq> ''copy'' \<and> audioBitrate j = ''128k''
      \<and> audioFrequency j = 44100 \<and> audioChannels j = 2)
   \<and> (RunSilence c \<in> set (trace (snd (combineAudioFiles h steps outPath projectResourcesPath disk))) \<longrightarrow>
      sourceFilter c = ''anullsrc'' \<and> sourceRate c = 44100 \<and> sourceChannelLayout c = ''stereo''
      \<and> silenceCodec c = ''libmp3lame'' \<and> silenceBitrate c = ''128k'')"
proof -
  have "\<forall>e \<in> set (trace (snd (combineAudioFiles h steps outPath projectResourcesPath disk))). fixedProfile e"
    using combineAudioFiles_fixed[of h steps outPath projectResourcesPath disk]
    by (simp add: list_all_iff)
  then have "fixedProfile e"
    if "e \<in> set (trace (snd (combineAudioFiles h steps outPath projectResourcesPath disk)))" for e
    using that by blast
  from this[of "RunConcat j"] this[of "RunSilence c"] show ?thesis
    by auto
qed

text \<open>A run with a clip and a pause: both commands occur in its trace.\<close>

theorem fixed_output_profile_witness:
  "(let j = \<lparr>concatInput = ''/res/temporary_deletable/concat-list.txt'',
              inputOptions = [''-f'', ''concat'', ''-safe'', ''0''],
              audioCodec = ''libmp3lame'', audioBitrate = ''128k'', audioFrequency = 44100,
              audioChannels = 2, concatOutput = ''/out/o.mp3''\<rparr>;
        c = \<lparr>inputFormat = ''lavfi'', sourceFilter = ''anullsrc'', sourceRate = 44100,
              sourceChannelLayout = ''stereo'', duration = Finite 2,
              silenceCodec = ''libmp3lame'', silenceBitrate = ''128k'', overwrite = True,
              silenceOutput = ''/res/temporary_deletable/silence-1.mp3''\<rparr>;
        tr = trace (snd (combineAudioFiles simpleHost
                [clipStep ''1'' ''/a.mp3'', pauseStep ''2'' (Finite 2)] ''/out/o.mp3'' ''/res'' [''/a.mp3'']))
    in RunConcat j \<in> set tr \<and> RunSilence c \<in> set tr
       \<and> (audioCodec j = ''libmp3lame'' \<and> audioCodec j \<noteq> ''copy'' \<and> audioBitrate j = ''128k''
          \<and> audioFrequency j = 44100 \<and> audioChannels j = 2)
       \<and> (sourceFilter c = ''anullsrc'' \<and> sourceRate c = 44100 \<and> sourceChannelLayout c = ''stereo''
          \<and> silenceCodec c = ''libmp3lame'' \<and> silenceBitrate c = ''128k''))"
proof -
  let ?j = "\<lparr>concatInput = ''/res/temporary_deletable/concat-list.txt'',
                inputOptions = [''-f'', ''concat'', ''-safe'', ''0''],
                audioCodec = ''libmp3lame'', audioBitrate = ''128k'', audioFrequency = 44100,
                audioChannels = 2, concatOutput = ''/out/o.mp3''\<rparr>"
  let ?c = "\<lparr>inputFormat = ''lavfi'', sourceFilter = ''anullsrc'', sourceRate = 44100,
                 sourceChannelLayout = ''stereo'', duration = Finite 2,
                 silenceCodec = ''libmp3lame'', silenceBitrate = ''128k'', overwrite = True,
                 silenceOutput = ''/res/temporary_deletable/silence-1.mp3''\<rparr>"
  let ?tr = "trace (snd (combineAudioFiles simpleHost
                [clipStep ''1'' ''/a.mp3'', pauseStep ''2'' (Finite 2)] ''/out/o.mp3'' ''/res'' [''/a.mp3'']))"
  have m1: "RunConcat ?j \<in> set ?tr" and m2: "RunSilence ?c \<in> set ?tr"
    by (simp_all add: run_defs)
  note T = fixed_output_profile[of ?j simpleHost "[clipStep ''1'' ''/a.mp3'', pauseStep ''2'' (Finite 2)]"
        "''/out/o.mp3''" "''/res''" "[''/a.mp3'']" ?c]
  note pj = mp[OF conjunct1[OF T] m1]
  note pc = mp[OF conjunct2[OF T] m2]
  show ?thesis
    unfolding Let_def by (rule conjI[OF m1 conjI[OF m2 conjI[OF pj pc]]])
qed

section \<open>Creation of the Scratch Directory\<close>

text \<open>
  Claim C7, amended. The scratch directory is created eagerly: whenever it does not
  exist when \<open>combineAudioFiles\<close> is called, creating it is the first effect of the call,
  before any step is looked at and whatever the steps are.
\<close>

theorem scratchDir_created_first:
  assumes "\<not> existsSync (scratchDir h projectResourcesPath) \<lparr>files = disk, trace = []\<rparr>"
  shows "take 1 (trace (snd (combineAudioFiles h steps outPath projectResourcesPath disk)))
           = [Mkdir (scratchDir h projectResourcesPath)]"
proof -
  let ?t = "scratchDir h projectResourcesPath"
  let ?w0 = "createTempDir ?t \<lparr>files = disk, trace = []\<rparr>"
  let ?w1 = "snd (tryBlock h steps outPath ?t (pathJoin h ?t ''concat-list.txt'') ?w0)"
  have t0: "trace ?w0 = [Mkdir ?t]" using assms by (simp add: trace_createTempDir)
  have "extends ?w0 (finallyBlock ?t ?w1)"
    by (blast intro: extends_trans extends_tryBlock extends_finallyBlock)
  then obtain ev where "trace (finallyBlock ?t ?w1) = Mkdir ?t # ev"
    by (auto simp: extends_def t0)
  then show ?thesis
    by (simp add: combineAudioFiles_def Let_def case_prod_beta)
qed

theorem scratchDir_created_first_witness:
  "take 1 (trace (snd (combineAudioFiles simpleHost [clipStep ''1'' ''/a.mp3''] ''/out/o.mp3'' ''/res'' [''/a.mp3''])))
     = [Mkdir (scratchDir simpleHost ''/res'')]"
  by (rule scratchDir_created_first) (simp add: existsSync_def scratchDir_def simpleHost_def inTree_def)

text \<open>
  The claim as stated fails: for a plan that needs no generated file (a single pause of
  zero seconds, so neither a silence file nor a concat list is written) the directory is
  created all the same, and removed again by the \<open>finally\<close> block.
\<close>

theorem lazy_creation_counterexample:
  "trace (snd (combineAudioFiles simpleHost [pauseStep ''1'' (Finite 0)] ''/out/o.mp3'' ''/res'' []))
     = [Mkdir ''/res/temporary_deletable'', RmTree ''/res/temporary_deletable'']"
  by (simp add: run_defs)

section \<open>Properties of parseFloat\<close>

lemma all_dropWhile: "(\<forall>c\<in>set (dropWhile P s). P c) \<longleftrightarrow> dropWhile P s = []"
proof
  assume a: "\<forall>c\<in>set (dropWhile P s). P c"
  show "dropWhile P s = []"
  proof (rule ccontr)
    assume n: "dropWhile P s \<noteq> []"
    then have "\<not> P (hd (dropWhile P s))" by (rule hd_dropWhile)
    moreover have "hd (dropWhile P s) \<in> set (dropWhile P s)" using n by simp
    ultimately show False using a by blast
  qed
next
  assume e: "dropWhile P s = []"
  show "\<forall>c\<in>set (dropWhile P s). P c" unfolding e by simp
qed

lemma trim_eq_Nil: "trim s = [] \<longleftrightarrow> (\<forall>c\<in>set s. isWhiteSpace c)"
proof -
  have "trim s = [] \<longleftrightarrow> (\<forall>c\<in>set (dropWhile isWhiteSpace s). isWhiteSpace c)"
    by (simp only: trim_def trimEnd_def trimStart_def rev_is_Nil_conv dropWhile_eq_Nil_conv set_rev)
  also have "\<dots> \<longleftrightarrow> dropWhile isWhiteSpace s = []"
    by (rule all_dropWhile)
  also have "\<dots> \<longleftrightarrow> (\<forall>c\<in>set s. isWhiteSpace c)"
    by (simp only: dropWhile_eq_Nil_conv)
  finally show ?thesis .
qed

















section \<open>Properties of the Parser\<close>

lemma trim_nonempty: "trim s \<noteq> [] \<Longrightarrow> s \<noteq> []"
  by (auto simp: trim_def trimEnd_def trimStart_def)

lemma parseRow_audio:
  "audio_file_name_and_path (fst (parseRow row)) =
     (case row_audio_file_name_and_path row of
        None \<Rightarrow> None
      | Some a \<Rightarrow> if trim a \<noteq> [] then Some (trim a) else None)"
  by (auto simp: parseRow_def Let_def split: option.splits dest: trim_nonempty)

lemma parseRow_step_id: "step_id (fst (parseRow row)) = row_id row"
  by (auto simp: parseRow_def Let_def split: option.splits)

lemma parseRow_pause:
  assumes "row_pause_duration row = Some p" and "trim p \<noteq> []"
  shows "pause_duration (fst (parseRow row)) = (if isNaN (parseFloat p) then None else Some (parseFloat p))"
    and "snd (parseRow row) =
           (if isNaN (parseFloat p)
            then [(LogWarn, ''Invalid pause_duration for step '' @ row_id row @ '': '' @ p)] else [])"
  using assms trim_nonempty[OF assms(2)] by (simp_all add: parseRow_def Let_def)

lemma fst_parseRows: "fst (parseRows rs) = map (\<lambda>r. fst (parseRow r)) rs"
  by (induction rs) (simp_all add: case_prod_beta)

lemma snd_parseRows: "snd (parseRows rs) = concat (map (\<lambda>r. snd (parseRow r)) rs)"
  by (induction rs) (simp_all add: case_prod_beta)

lemma parseAudioSequenceCSV_ok:
  assumes "disk csvPath = Some f" and "readError f = None"
  shows "fst (parseAudioSequenceCSV disk csvPath) = Inr (map (\<lambda>r. fst (parseRow r)) (rows f))"
    and "set (concat (map (\<lambda>r. snd (parseRow r)) (rows f))) \<subseteq> set (snd (parseAudioSequenceCSV disk csvPath))"
  using assms fst_parseRows[of "rows f"] snd_parseRows[of "rows f"]
  by (auto simp: parseAudioSequenceCSV_def Let_def case_prod_beta)

text \<open>
  Claim C8, amended. For a row whose \<open>pause_duration\<close> cell is not blank and has no
  numeric prefix (\<open>parseFloat\<close> gives NaN), the parser clears the field, logs one warning
  naming the row and the cell, and still returns the step: when the file is read without
  a stream error the call succeeds with one step per row, this one among them, and the
  warning is in its log. When the row has no clip reference either, the loop then passes
  the step over.
\<close>

theorem invalid_pause_cleared:
  assumes "row_pause_duration row = Some p" and "trim p \<noteq> []" and "isNaN (parseFloat p)"
  shows "pause_duration (fst (parseRow row)) = None
       \<and> snd (parseRow row) = [(LogWarn, ''Invalid pause_duration for step '' @ row_id row @ '': '' @ p)]
       \<and> (disk csvPath = Some f \<and> readError f = None \<and> row \<in> set (rows f) \<longrightarrow>
            fst (parseAudioSequenceCSV disk csvPath) = Inr (map (\<lambda>r. fst (parseRow r)) (rows f))
            \<and> fst (parseRow row) \<in> set (map (\<lambda>r. fst (parseRow r)) (rows f))
            \<and> (LogWarn, ''Invalid pause_duration for step '' @ row_id row @ '': '' @ p)
                \<in> set (snd (parseAudioSequenceCSV disk csvPath)))
       \<and> (\<not> hasClip (fst (parseRow row)) \<longrightarrow>
            loopBody h tempDir i (fst (parseRow row)) filesToConcat w = (Inr filesToConcat, w))"
proof -
  note pp = parseRow_pause[OF assms(1,2)]
  have a: "pause_duration (fst (parseRow row)) = None" using pp(1) assms(3) by simp
  have b: "snd (parseRow row) = [(LogWarn, ''Invalid pause_duration for step '' @ row_id row @ '': '' @ p)]"
    using pp(2) assms(3) by simp
  have c: "fst (parseAudioSequenceCSV disk csvPath) = Inr (map (\<lambda>r. fst (parseRow r)) (rows f))
            \<and> fst (parseRow row) \<in> set (map (\<lambda>r. fst (parseRow r)) (rows f))
            \<and> (LogWarn, ''Invalid pause_duration for step '' @ row_id row @ '': '' @ p)
                \<in> set (snd (parseAudioSequenceCSV disk csvPath))"
    if h: "disk csvPath = Some f" "readError f = None" "row \<in> set (rows f)"
  proof -
    have "(LogWarn, ''Invalid pause_duration for step '' @ row_id row @ '': '' @ p)
            \<in> set (concat (map (\<lambda>r. snd (parseRow r)) (rows f)))"
      using h(3) b by force
    with parseAudioSequenceCSV_ok[of disk csvPath f, OF h(1,2)] h(3) show ?thesis by auto
  qed
  have d: "loopBody h tempDir i (fst (parseRow row)) filesToConcat w = (Inr filesToConcat, w)"
    if "\<not> hasClip (fst (parseRow row))"
    using that a by (intro loopBody_skip) (simp_all add: hasPositivePause_def)
  from a b c d show ?thesis by blast
qed

text \<open>The definitions to unfold when a row is parsed on given inputs.\<close>

lemmas parse_defs = parseRow_def Let_def trim_def trimStart_def trimEnd_def isWhiteSpace_def parseFloat_def
  strDecimalLiteral_def strUnsignedDecimalLiteral_def isDigit_def exponentPart_def signedInteger_def
  roundMV_def mathValue_def decimalValue_def digitValue_def

theorem invalid_pause_cleared_witness:
  "(let row = \<lparr>row_id = ''7'', row_audio_file_name_and_path = Some [], row_pause_duration = Some ''abc''\<rparr>;
        f = \<lparr>rows = [row], readError = None\<rparr>
    in pause_duration (fst (parseRow row)) = None
     \<and> snd (parseRow row) = [(LogWarn, ''Invalid pause_duration for step '' @ row_id row @ '': '' @ ''abc'')]
     \<and> (fst (parseAudioSequenceCSV (\<lambda>p. Some f) ''/seq.csv'') = Inr (map (\<lambda>r. fst (parseRow r)) (rows f))
        \<and> fst (parseRow row) \<in> set (map (\<lambda>r. fst (parseRow r)) (rows f))
        \<and> (LogWarn, ''Invalid pause_duration for step '' @ row_id row @ '': '' @ ''abc'')
             \<in> set (snd (parseAudioSequenceCSV (\<lambda>p. Some f) ''/seq.csv'')))
     \<and> loopBody simpleHost ''/res/temporary_deletable'' 0 (fst (parseRow row)) [] emptyWorld
         = (Inr [], emptyWorld))"
proof -
  let ?row = "\<lparr>row_id = ''7'', row_audio_file_name_and_path = Some [], row_pause_duration = Some ''abc''\<rparr>"
  let ?f = "\<lparr>rows = [?row], readError = None\<rparr>"
  have h1: "row_pause_duration ?row = Some ''abc''" by simp
  have h2: "trim ''abc'' \<noteq> []" by (simp add: parse_defs)
  have h3: "isNaN (parseFloat ''abc'')" by (simp add: parse_defs)
  have h4: "\<not> hasClip (fst (parseRow ?row))" by (simp add: hasClip_def parseRow_audio trim_eq_Nil)
  have h5: "(\<lambda>p. Some ?f) ''/seq.csv'' = Some ?f \<and> readError ?f = None \<and> ?row \<in> set (rows ?f)" by simp
  note T = invalid_pause_cleared[OF h1 h2 h3, of "\<lambda>p. Some ?f" "''/seq.csv''" ?f simpleHost
      "''/res/temporary_deletable''" 0 "[]" emptyWorld]
  note c3 = mp[OF conjunct1[OF conjunct2[OF conjunct2[OF T]]] h5]
  note c4 = mp[OF conjunct2[OF conjunct2[OF conjunct2[OF T]]] h4]
  show ?thesis
    unfolding Let_def
    by (rule conjI[OF conjunct1[OF T] conjI[OF conjunct1[OF conjunct2[OF T]] conjI[OF c3 c4]]])
qed

text \<open>
  The claim as stated says that the step is skipped by the planner for every such row.
  A row that also names a clip is not skipped: its clip is appended.
\<close>

theorem invalid_pause_counterexample:
  "isNaN (parseFloat ''abc'')
   \<and> loopBody simpleHost ''/res/temporary_deletable'' 0
        (fst (parseRow \<lparr>row_id = ''1'', row_audio_file_name_and_path = Some ''/a.mp3'',
                         row_pause_duration = Some ''abc''\<rparr>)) [] emptyWorld
      = (Inr [''/a.mp3''], emptyWorld)"
  by (simp add: parse_defs loopBody_def)

section \<open>Rows with Both Fields, and Numeric Prefixes\<close>

lemma gtZero_not_NaN: "gtZero v \<Longrightarrow> \<not> isNaN v"
  by (cases v) simp_all

text \<open>
  Claim C9. For a row that has both a clip reference and a positive pause duration, the
  parser keeps both fields (the trimmed path and the parsed number) and logs nothing, and
  the loop appends only the clip path: the world is returned unchanged, so no silence
  file is generated, and no error is raised. The last part holds for every step with
  both fields, wherever it comes from.
\<close>

theorem both_fields_clip_wins:
  assumes "row_audio_file_name_and_path row = Some a" and "trim a \<noteq> []"
    and "row_pause_duration row = Some p" and "trim p \<noteq> []" and "gtZero (parseFloat p)"
  shows "fst (parseRow row) = \<lparr>step_id = row_id row, audio_file_name_and_path = Some (trim a),
                                pause_duration = Some (parseFloat p)\<rparr>
       \<and> snd (parseRow row) = []
       \<and> loopBody h tempDir i (fst (parseRow row)) filesToConcat w
           = (Inr (filesToConcat @ [trim a]), w)
       \<and> (audio_file_name_and_path step = Some clip \<and> clip \<noteq> []
            \<and> pause_duration step = Some d \<and> gtZero d \<longrightarrow>
          loopBody h tempDir i step filesToConcat w = (Inr (filesToConcat @ [clip]), w))"
proof -
  note n = gtZero_not_NaN[OF assms(5)]
  note pp = parseRow_pause[OF assms(3,4)]
  have au: "audio_file_name_and_path (fst (parseRow row)) = Some (trim a)"
    using assms(1,2) by (simp add: parseRow_audio)
  have pa: "pause_duration (fst (parseRow row)) = Some (parseFloat p)"
    using pp(1) n by simp
  have a: "fst (parseRow row) = \<lparr>step_id = row_id row, audio_file_name_and_path = Some (trim a),
                                pause_duration = Some (parseFloat p)\<rparr>"
    using au pa parseRow_step_id[of row] by (cases "fst (parseRow row)") simp
  have b: "snd (parseRow row) = []" using pp(2) n by simp
  have c: "loopBody h tempDir i (fst (parseRow row)) filesToConcat w = (Inr (filesToConcat @ [trim a]), w)"
    using au assms(2) by (rule loopBody_clip)
  have d: "loopBody h tempDir i step filesToConcat w = (Inr (filesToConcat @ [clip]), w)"
    if "audio_file_name_and_path step = Some clip \<and> clip \<noteq> [] \<and> pause_duration step = Some d \<and> gtZero d"
    using that by (simp add: loopBody_clip)
  from a b c d show ?thesis by blast
qed

theorem both_fields_clip_wins_witness:
  "(let row = \<lparr>row_id = ''4'', row_audio_file_name_and_path = Some '' /a.mp3'',
                row_pause_duration = Some ''2.5''\<rparr>;
        step = \<lparr>step_id = ''4'', audio_file_name_and_path = Some ''/a.mp3'',
                 pause_duration = Some (Finite 3)\<rparr>
    in fst (parseRow row) = \<lparr>step_id = row_id row, audio_file_name_and_path = Some (trim '' /a.mp3''),
                               pause_duration = Some (parseFloat ''2.5'')\<rparr>
     \<and> snd (parseRow row) = []
     \<and> loopBody simpleHost ''/res/temporary_deletable'' 3 (fst (parseRow row)) [''/x.mp3''] emptyWorld
         = (Inr ([''/x.mp3''] @ [trim '' /a.mp3'']), emptyWorld)
     \<and> loopBody simpleHost ''/res/temporary_deletable'' 3 step [''/x.mp3''] emptyWorld
         = (Inr ([''/x.mp3''] @ [''/a.mp3'']), emptyWorld))"
proof -
  let ?row = "\<lparr>row_id = ''4'', row_audio_file_name_and_path = Some '' /a.mp3'',
                row_pause_duration = Some ''2.5''\<rparr>"
  let ?step = "\<lparr>step_id = ''4'', audio_file_name_and_path = Some ''/a.mp3'',
                 pause_duration = Some (Finite 3)\<rparr>"
  have h1: "row_audio_file_name_and_path ?row = Some '' /a.mp3''" by simp
  have h2: "trim '' /a.mp3'' \<noteq> []" by (simp add: parse_defs)
  have h3: "row_pause_duration ?row = Some ''2.5''" by simp
  have h4: "trim ''2.5'' \<noteq> []" by (simp add: parse_defs)
  have h5: "gtZero (parseFloat ''2.5'')" by (simp add: parse_defs)
  have h6: "audio_file_name_and_path ?step = Some ''/a.mp3'' \<and> ''/a.mp3'' \<noteq> []
            \<and> pause_duration ?step = Some (Finite 3) \<and> gtZero (Finite 3)" by simp
  note T = both_fields_clip_wins[OF h1 h2 h3 h4 h5, of simpleHost "''/res/temporary_deletable''" 3
      "[''/x.mp3'']" emptyWorld ?step "''/a.mp3''" "Finite 3"]
  note c4 = mp[OF conjunct2[OF conjunct2[OF conjunct2[OF T]]] h6]
  show ?thesis
    unfolding Let_def
    by (rule conjI[OF conjunct1[OF T] conjI[OF conjunct1[OF conjunct2[OF T]]
          conjI[OF conjunct1[OF conjunct2[OF conjunct2[OF T]]] c4]]])
qed

text \<open>The step the parser builds from the row of the witness.\<close>

lemma both_fields_example:
  "fst (parseRow \<lparr>row_id = ''4'', row_audio_file_name_and_path = Some '' /a.mp3'',
                   row_pause_duration = Some ''2.5''\<rparr>)
    = \<lparr>step_id = ''4'', audio_file_name_and_path = Some ''/a.mp3'', pause_duration = Some (Finite (5 / 2))\<rparr>"
  by (simp add: parse_defs)



text \<open>Some cells and what they parse to.\<close>

lemma numeric_prefix_example:
  "parseRow \<lparr>row_id = ''2'', row_audio_file_name_and_path = None, row_pause_duration = Some ''5abc''\<rparr>
     = (\<lparr>step_id = ''2'', audio_file_name_and_path = None, pause_duration = Some (Finite 5)\<rparr>, [])
   \<and> parseRow \<lparr>row_id = ''3'', row_audio_file_name_and_path = None, row_pause_duration = Some ''abc5''\<rparr>
     = (\<lparr>step_id = ''3'', audio_file_name_and_path = None, pause_duration = None\<rparr>,
        [(LogWarn, ''Invalid pause_duration for step 3: abc5'')])
   \<and> parseFloat '' -12.50e-1xyz'' = Finite (- (5 / 4))
   \<and> parseFloat ''1e-400'' = Finite 0
   \<and> parseFloat ''.'' = NaN"
  by (simp add: parse_defs)

end
